theory Spec2Isabelle
  imports Main
begin

section \<open>JSON values and Python dictionaries\<close>

text \<open>
  Schemas, responses and backend payloads are the values \<^verbatim>\<open>json.loads\<close> produces:
  \<^verbatim>\<open>None\<close>, booleans, numbers, strings, lists and dictionaries with string keys.
  A Python \<^verbatim>\<open>dict\<close> keeps its keys in insertion order and holds every key once, so
  it is modelled as an association list; \<open>wf_json\<close> states that keys are not repeated.
  Numbers are integers here: the code only tests their type and their truth value.
\<close>

datatype json =
    JNull
  | JBool bool
  | JNum int
  | JStr string
  | JArr "json list"
  | JObj "(string \<times> json) list"

type_synonym 'v dict = "(string \<times> 'v) list"

text \<open>\<^verbatim>\<open>d.get(k)\<close>: the value stored under \<open>k\<close>, if any.\<close>

definition dict_get :: "'v dict \<Rightarrow> string \<Rightarrow> 'v option" where
  "dict_get d k = map_of d k"

text \<open>
  \<^verbatim>\<open>d[k] = v\<close>: an existing key keeps its position and takes the new value, a new key
  is appended.
\<close>

fun dict_set :: "'v dict \<Rightarrow> string \<Rightarrow> 'v \<Rightarrow> 'v dict" where
  "dict_set [] k v = [(k, v)]"
| "dict_set ((k', v') # d) k v =
     (if k' = k then (k, v) # d else (k', v') # dict_set d k v)"

text \<open>\<^verbatim>\<open>list(d.keys())\<close>.\<close>

definition keys :: "'v dict \<Rightarrow> string list" where
  "keys d = map fst d"

text \<open>Python's truth value of a JSON value (\<^verbatim>\<open>if v\<close>, \<^verbatim>\<open>not v\<close>, \<^verbatim>\<open>v or w\<close>).\<close>

fun truthy :: "json \<Rightarrow> bool" where
  "truthy JNull = False"
| "truthy (JBool b) = b"
| "truthy (JNum n) = (n \<noteq> 0)"
| "truthy (JStr s) = (s \<noteq> [])"
| "truthy (JArr xs) = (xs \<noteq> [])"
| "truthy (JObj d) = (d \<noteq> [])"

text \<open>\<^verbatim>\<open>isinstance(v, dict)\<close> and \<^verbatim>\<open>isinstance(v, str)\<close>.\<close>

fun is_dict :: "json \<Rightarrow> bool" where
  "is_dict (JObj d) = True"
| "is_dict _ = False"

fun is_str :: "json \<Rightarrow> bool" where
  "is_str (JStr s) = True"
| "is_str _ = False"

text \<open>Every dictionary of a value holds each of its keys once.\<close>

fun wf_json :: "json \<Rightarrow> bool" where
  "wf_json (JArr xs) = list_all wf_json xs"
| "wf_json (JObj d) = (distinct (map fst d) \<and> list_all (\<lambda>kv. wf_json (snd kv)) d)"
| "wf_json _ = True"

text \<open>The exceptions the modelled functions raise.\<close>

datatype error =
    AttributeError
  | TypeError
  | RuntimeError string
  | RequestException string
  | JSONDecodeError string
  | OSError string

section \<open>Schema normalization (\<^verbatim>\<open>jig/utils.py\<close>)\<close>

type_synonym rename_map = "string dict"

definition RESERVED_PROP_NAMES :: "string set" where
  "RESERVED_PROP_NAMES =
     {''required'', ''properties'', ''type'', ''items'', ''additionalProperties''}"

definition RESERVED_RENAME_PREFIX :: string where
  "RESERVED_RENAME_PREFIX = ''_prop_''"

subsection \<open>The \<^verbatim>\<open>required\<close> coercion of one node\<close>

text \<open>
  \<^verbatim>\<open>list(out.get("properties", {}).keys())\<close>: the default only applies when the key is
  missing, so a \<^verbatim>\<open>properties\<close> entry that is not a dictionary raises
  \<^verbatim>\<open>AttributeError\<close>.
\<close>

definition properties_keys :: "json dict \<Rightarrow> error + json" where
  "properties_keys out =
     (case dict_get out ''properties'' of
        None \<Rightarrow> Inr (JArr [])
      | Some (JObj props) \<Rightarrow> Inr (JArr (map JStr (keys props)))
      | Some _ \<Rightarrow> Inl AttributeError)"

text \<open>
  Lines 117 to 132 of \<^verbatim>\<open>_norm\<close>. \<open>absent\<close> is the \<^verbatim>\<open>elif\<close> branch taken when
  \<^verbatim>\<open>out.get("required")\<close> is \<^verbatim>\<open>None\<close> (the key is missing or holds \<^verbatim>\<open>null\<close>);
  \<open>other\<close> is the final \<^verbatim>\<open>else\<close> branch, also reached by a list with an entry that is
  not a string.
\<close>

definition norm_required :: "json dict \<Rightarrow> error + json dict" where
  "norm_required out =
     (let other = (\<lambda>_::unit.
            if (case dict_get out ''properties'' of None \<Rightarrow> False | Some p \<Rightarrow> truthy p)
            then (case properties_keys out of
                    Inl e \<Rightarrow> Inl e
                  | Inr ks \<Rightarrow> Inr (dict_set out ''required'' ks))
            else Inr (dict_set out ''required'' (JArr [])));
          absent = (\<lambda>_::unit.
            case dict_get out ''properties'' of
              Some (JObj props) \<Rightarrow>
                if props \<noteq> [] then Inr (dict_set out ''required'' (JArr [])) else Inr out
            | _ \<Rightarrow> Inr out)
      in case dict_get out ''required'' of
           None \<Rightarrow> absent ()
         | Some JNull \<Rightarrow> absent ()
         | Some (JArr xs) \<Rightarrow> if list_all is_str xs then Inr out else other ()
         | Some (JBool b) \<Rightarrow>
             if b then (case properties_keys out of
                          Inl e \<Rightarrow> Inl e
                        | Inr ks \<Rightarrow> Inr (dict_set out ''required'' ks))
             else Inr (dict_set out ''required'' (JArr []))
         | Some (JObj req) \<Rightarrow>
             Inr (dict_set out ''required''
                    (JArr (map (JStr \<circ> fst) (filter (truthy \<circ> snd) req))))
         | Some _ \<Rightarrow> other ())"

subsection \<open>The recursive pass \<^verbatim>\<open>_norm\<close>\<close>

text \<open>
  \<^verbatim>\<open>_norm\<close> works on a deep copy \<open>out\<close> of its argument and updates it statement by
  statement; the rename map is a variable of the enclosing function that the loop over
  the properties assigns to, so it is passed in and returned. Each function below is
  \<^verbatim>\<open>_norm\<close> from one statement on, with the current \<open>out\<close>:
  \<^item> \<open>norm\<close>: the whole body (lines 98 to 141);
  \<^item> \<open>norm_props\<close>: the loop over \<^verbatim>\<open>props.items()\<close> that fills \<^verbatim>\<open>new_props\<close>
    (lines 104 to 110);
  \<^item> \<open>norm_from_items\<close>: from \<^verbatim>\<open>items = out.get("items")\<close> on (line 112);
  \<^item> \<open>norm_from_required\<close>: from \<^verbatim>\<open>req = out.get("required")\<close> on (line 117);
  \<^item> \<open>norm_from_anyOf\<close>, \<open>norm_from_oneOf\<close>, \<open>norm_from_allOf\<close>: the three rounds of
    the loop over \<^verbatim>\<open>("anyOf", "oneOf", "allOf")\<close> (lines 133 to 135);
  \<^item> \<open>norm_from_defs\<close>: the \<^verbatim>\<open>$defs\<close> statement and the return (lines 136 to 141);
  \<^item> \<open>norm_list\<close>: the comprehension \<^verbatim>\<open>[_norm(x) if isinstance(x, dict) else x for x in xs]\<close>;
  \<^item> \<open>norm_defs\<close>: the dictionary comprehension over \<^verbatim>\<open>out["$defs"].items()\<close>.
\<close>

function (sequential)
    norm :: "json \<Rightarrow> rename_map \<Rightarrow> error + json \<times> rename_map"
and norm_props ::
      "json dict \<Rightarrow> json dict \<Rightarrow> rename_map \<Rightarrow> error + json dict \<times> rename_map"
and norm_from_items :: "json dict \<Rightarrow> rename_map \<Rightarrow> error + json \<times> rename_map"
and norm_from_required :: "json dict \<Rightarrow> rename_map \<Rightarrow> error + json \<times> rename_map"
and norm_from_anyOf :: "json dict \<Rightarrow> rename_map \<Rightarrow> error + json \<times> rename_map"
and norm_from_oneOf :: "json dict \<Rightarrow> rename_map \<Rightarrow> error + json \<times> rename_map"
and norm_from_allOf :: "json dict \<Rightarrow> rename_map \<Rightarrow> error + json \<times> rename_map"
and norm_from_defs :: "json dict \<Rightarrow> rename_map \<Rightarrow> error + json \<times> rename_map"
and norm_list :: "json list \<Rightarrow> rename_map \<Rightarrow> error + json list \<times> rename_map"
and norm_defs ::
      "json dict \<Rightarrow> json dict \<Rightarrow> rename_map \<Rightarrow> error + json dict \<times> rename_map"
where
  "norm (JObj out) rm =
     (case dict_get out ''properties'' of
        Some (JObj props) \<Rightarrow>
          (case norm_props props [] rm of
             Inl e \<Rightarrow> Inl e
           | Inr (new_props, rm') \<Rightarrow>
               norm_from_items (dict_set out ''properties'' (JObj new_props)) rm')
      | _ \<Rightarrow> norm_from_items out rm)"
| "norm obj rm = Inr (obj, rm)"
| "norm_props [] new_props rm = Inr (new_props, rm)"
| "norm_props ((k, v) # props) new_props rm =
     (if k \<in> RESERVED_PROP_NAMES then
        (case norm v (dict_set rm (RESERVED_RENAME_PREFIX @ k) k) of
           Inl e \<Rightarrow> Inl e
         | Inr (v', rm') \<Rightarrow>
             norm_props props (dict_set new_props (RESERVED_RENAME_PREFIX @ k) v') rm')
      else
        (case norm v rm of
           Inl e \<Rightarrow> Inl e
         | Inr (v', rm') \<Rightarrow> norm_props props (dict_set new_props k v') rm'))"
| "norm_from_items out rm =
     (case dict_get out ''items'' of
        Some (JObj items) \<Rightarrow>
          (case norm (JObj items) rm of
             Inl e \<Rightarrow> Inl e
           | Inr (items', rm') \<Rightarrow> norm_from_required (dict_set out ''items'' items') rm')
      | Some (JArr items) \<Rightarrow>
          (case norm_list items rm of
             Inl e \<Rightarrow> Inl e
           | Inr (items', rm') \<Rightarrow>
               norm_from_required (dict_set out ''items'' (JArr items')) rm')
      | _ \<Rightarrow> norm_from_required out rm)"
| "norm_from_required out rm =
     (case norm_required out of
        Inl e \<Rightarrow> Inl e
      | Inr out' \<Rightarrow> norm_from_anyOf out' rm)"
| "norm_from_anyOf out rm =
     (case dict_get out ''anyOf'' of
        Some (JArr xs) \<Rightarrow>
          (case norm_list xs rm of
             Inl e \<Rightarrow> Inl e
           | Inr (xs', rm') \<Rightarrow> norm_from_oneOf (dict_set out ''anyOf'' (JArr xs')) rm')
      | _ \<Rightarrow> norm_from_oneOf out rm)"
| "norm_from_oneOf out rm =
     (case dict_get out ''oneOf'' of
        Some (JArr xs) \<Rightarrow>
          (case norm_list xs rm of
             Inl e \<Rightarrow> Inl e
           | Inr (xs', rm') \<Rightarrow> norm_from_allOf (dict_set out ''oneOf'' (JArr xs')) rm')
      | _ \<Rightarrow> norm_from_allOf out rm)"
| "norm_from_allOf out rm =
     (case dict_get out ''allOf'' of
        Some (JArr xs) \<Rightarrow>
          (case norm_list xs rm of
             Inl e \<Rightarrow> Inl e
           | Inr (xs', rm') \<Rightarrow> norm_from_defs (dict_set out ''allOf'' (JArr xs')) rm')
      | _ \<Rightarrow> norm_from_defs out rm)"
| "norm_from_defs out rm =
     (case dict_get out ''$defs'' of
        Some (JObj defs) \<Rightarrow>
          (case norm_defs defs [] rm of
             Inl e \<Rightarrow> Inl e
           | Inr (defs', rm') \<Rightarrow> Inr (JObj (dict_set out ''$defs'' (JObj defs')), rm'))
      | _ \<Rightarrow> Inr (JObj out, rm))"
| "norm_list [] rm = Inr ([], rm)"
| "norm_list (x # xs) rm =
     (case (if is_dict x then norm x rm else Inr (x, rm)) of
        Inl e \<Rightarrow> Inl e
      | Inr (x', rm') \<Rightarrow>
          (case norm_list xs rm' of
             Inl e \<Rightarrow> Inl e
           | Inr (xs', rm'') \<Rightarrow> Inr (x' # xs', rm'')))"
| "norm_defs [] new_defs rm = Inr (new_defs, rm)"
| "norm_defs ((k, v) # defs) new_defs rm =
     (case (if is_dict v then norm v rm else Inr (v, rm)) of
        Inl e \<Rightarrow> Inl e
      | Inr (v', rm') \<Rightarrow> norm_defs defs (dict_set new_defs k v') rm')"
  by pat_completeness auto

text \<open>
  Termination: every recursive call of \<^verbatim>\<open>_norm\<close> is on a value stored in \<open>out\<close> under a
  key that no earlier statement has assigned. \<open>rest_size ks out\<close> adds up the sizes of
  the values under the keys \<open>ks\<close> still to be visited.
\<close>

definition child_size :: "json dict \<Rightarrow> string \<Rightarrow> nat" where
  "child_size d k = (case dict_get d k of None \<Rightarrow> 0 | Some v \<Rightarrow> Suc (size v))"

definition rest_size :: "string list \<Rightarrow> json dict \<Rightarrow> nat" where
  "rest_size ks d = sum_list (map (child_size d) ks)"

lemma dict_get_dict_set:
  "dict_get (dict_set d k v) k' = (if k' = k then Some v else dict_get d k')"
  by (induction d) (auto simp: dict_get_def)

lemma size_dict_get: "dict_get d k = Some v \<Longrightarrow> size v < size (JObj d)"
  by (induction d) (auto simp: dict_get_def split: if_splits)

lemma child_size_get: "dict_get d k = Some v \<Longrightarrow> child_size d k = Suc (size v)"
  by (simp add: child_size_def)

lemma child_size_dict_set:
  "k' \<noteq> k \<Longrightarrow> child_size (dict_set d k v) k' = child_size d k'"
  by (simp add: child_size_def dict_get_dict_set)

lemma child_size_Cons:
  "child_size ((k0, v0) # d) k = (if k = k0 then Suc (size v0) else child_size d k)"
  by (simp add: child_size_def dict_get_def)

lemma rest_size_simps:
  "rest_size [] d = 0"
  "rest_size (k # ks) d = child_size d k + rest_size ks d"
  by (simp_all add: rest_size_def)

lemma rest_size_Cons_notin:
  "k0 \<notin> set ks \<Longrightarrow> rest_size ks ((k0, v0) # d) = rest_size ks d"
  by (induction ks) (auto simp: rest_size_simps child_size_Cons)

lemma rest_size_Cons:
  "distinct ks \<Longrightarrow> rest_size ks ((k0, v0) # d) \<le> Suc (size v0) + rest_size ks d"
proof (induction ks)
  case Nil
  then show ?case by (simp add: rest_size_simps)
next
  case (Cons k ks)
  show ?case
  proof (cases "k = k0")
    case True
    with Cons.prems have "k0 \<notin> set ks" by simp
    from rest_size_Cons_notin[OF this, of v0 d] True
    show ?thesis by (simp add: rest_size_simps child_size_Cons)
  next
    case False
    with Cons show ?thesis by (simp add: rest_size_simps child_size_Cons)
  qed
qed

lemma rest_size_less: "distinct ks \<Longrightarrow> rest_size ks d < size (JObj d)"
proof (induction d)
  case Nil
  have "rest_size ks [] = 0"
    by (induction ks) (auto simp: rest_size_simps child_size_def dict_get_def)
  then show ?case by simp
next
  case (Cons a d)
  obtain k0 v0 where a: "a = (k0, v0)" by (cases a)
  from rest_size_Cons[OF Cons.prems, of k0 v0 d] Cons.IH[OF Cons.prems]
  show ?case by (simp add: a)
qed

lemma rest_size_five:
  "child_size d ''items'' + (child_size d ''anyOf'' + (child_size d ''oneOf'' +
     (child_size d ''allOf'' + child_size d ''$defs'')))
   \<le> size_list (size_prod (\<lambda>x. 0) size) d"
  using rest_size_less[of "[''items'', ''anyOf'', ''oneOf'', ''allOf'', ''$defs'']" d]
  by (simp add: rest_size_simps)

lemma norm_required_other:
  "norm_required out = Inr out' \<Longrightarrow> k \<noteq> ''required'' \<Longrightarrow> dict_get out' k = dict_get out k"
  by (auto simp: norm_required_def Let_def dict_get_dict_set
      split: option.splits json.splits if_splits sum.splits)

lemma child_size_norm_required:
  "norm_required out = Inr out' \<Longrightarrow> k \<noteq> ''required''
   \<Longrightarrow> child_size out' k = child_size out k"
  by (simp add: child_size_def norm_required_other)

termination norm
  apply (relation "measure (\<lambda>x. case x of
      Inl (Inl (Inl (j, rm))) \<Rightarrow> 16 * size j + 10
    | Inl (Inl (Inr (props, acc, rm))) \<Rightarrow> 16 * size (JObj props)
    | Inl (Inr (Inl (out, rm))) \<Rightarrow>
        16 * rest_size [''items'', ''anyOf'', ''oneOf'', ''allOf'', ''$defs''] out + 9
    | Inl (Inr (Inr (Inl (out, rm)))) \<Rightarrow>
        16 * rest_size [''anyOf'', ''oneOf'', ''allOf'', ''$defs''] out + 8
    | Inl (Inr (Inr (Inr (out, rm)))) \<Rightarrow>
        16 * rest_size [''anyOf'', ''oneOf'', ''allOf'', ''$defs''] out + 7
    | Inr (Inl (Inl (out, rm))) \<Rightarrow> 16 * rest_size [''oneOf'', ''allOf'', ''$defs''] out + 6
    | Inr (Inl (Inr (out, rm))) \<Rightarrow> 16 * rest_size [''allOf'', ''$defs''] out + 5
    | Inr (Inr (Inl (out, rm))) \<Rightarrow> 16 * rest_size [''$defs''] out + 4
    | Inr (Inr (Inr (Inl (xs, rm)))) \<Rightarrow> 16 * size (JArr xs)
    | Inr (Inr (Inr (Inr (defs, acc, rm)))) \<Rightarrow> 16 * size (JObj defs))")
                      apply simp
                      apply (auto simp: rest_size_simps child_size_get child_size_dict_set
      child_size_norm_required dest!: size_dict_get)
   apply (insert rest_size_five)
   apply (erule_tac x=out in meta_allE, simp)+
  done

text \<open>
  The equations of the functions that take no constructor pattern would unfold for ever
  as rewrite rules; they are applied one step at a time.
\<close>

declare norm_from_items.simps [simp del] norm_from_required.simps [simp del]
  norm_from_anyOf.simps [simp del] norm_from_oneOf.simps [simp del]
  norm_from_allOf.simps [simp del] norm_from_defs.simps [simp del]

lemmas norm_stage_simps =
  norm_from_items.simps norm_from_required.simps norm_from_anyOf.simps
  norm_from_oneOf.simps norm_from_allOf.simps norm_from_defs.simps

lemmas norm_induct =
  norm_norm_props_norm_from_items_norm_from_required_norm_from_anyOf_norm_from_oneOf_norm_from_allOf_norm_from_defs_norm_list_norm_defs.induct

subsection \<open>The second pass \<^verbatim>\<open>_fix_required\<close>\<close>

text \<open>
  \<^verbatim>\<open>r in _RESERVED_PROP_NAMES\<close> for an entry \<open>r\<close> of a \<^verbatim>\<open>required\<close> list: a list or a
  dictionary cannot be hashed and raises \<^verbatim>\<open>TypeError\<close>; any other value that is not
  a string is not a member.
\<close>

fun in_reserved :: "json \<Rightarrow> error + bool" where
  "in_reserved (JStr s) = Inr (s \<in> RESERVED_PROP_NAMES)"
| "in_reserved (JArr xs) = Inl TypeError"
| "in_reserved (JObj d) = Inl TypeError"
| "in_reserved _ = Inr False"

text \<open>The loop that builds \<^verbatim>\<open>new_req\<close> (lines 156 to 161).\<close>

fun rename_required :: "json list \<Rightarrow> error + json list" where
  "rename_required [] = Inr []"
| "rename_required (r # req) =
     (case in_reserved r of
        Inl e \<Rightarrow> Inl e
      | Inr b \<Rightarrow>
          (case rename_required req of
             Inl e \<Rightarrow> Inl e
           | Inr new_req \<Rightarrow>
               Inr ((case r of
                       JStr s \<Rightarrow> if b then JStr (RESERVED_RENAME_PREFIX @ s) else r
                     | _ \<Rightarrow> r) # new_req)))"

text \<open>Lines 152 to 162: the rewrite of the node's own \<^verbatim>\<open>required\<close> list.\<close>

definition fix_required_here :: "json dict \<Rightarrow> error + json dict" where
  "fix_required_here obj =
     (case dict_get obj ''properties'' of
        Some (JObj props) \<Rightarrow>
          (case dict_get obj ''required'' of
             Some (JArr req) \<Rightarrow>
               (case rename_required req of
                  Inl e \<Rightarrow> Inl e
                | Inr new_req \<Rightarrow> Inr (dict_set obj ''required'' (JArr new_req)))
           | _ \<Rightarrow> Inr obj)
      | _ \<Rightarrow> Inr obj)"

text \<open>
  \<^verbatim>\<open>_fix_required\<close> updates the normalized tree in place and returns nothing; the model
  returns the updated tree. The tree has no shared nodes (it was built by
  \<^verbatim>\<open>copy.deepcopy\<close> and \<^verbatim>\<open>_norm\<close> from parsed JSON), so updating a child in place is
  replacing it in its parent. \<open>fix_values\<close> is the loop over
  \<^verbatim>\<open>(obj.get("properties") or {}).values()\<close>, which raises \<^verbatim>\<open>AttributeError\<close> when
  \<^verbatim>\<open>properties\<close> holds a true value that is not a dictionary; \<open>fix_from_items\<close> is the
  last statement (lines 165 and 166).
\<close>

function (sequential)
    fix_required :: "json \<Rightarrow> error + json"
and fix_values :: "json dict \<Rightarrow> error + json dict"
and fix_from_items :: "json dict \<Rightarrow> error + json"
where
  "fix_required (JObj obj) =
     (case fix_required_here obj of
        Inl e \<Rightarrow> Inl e
      | Inr obj' \<Rightarrow>
          (case dict_get obj' ''properties'' of
             Some (JObj props) \<Rightarrow>
               (case fix_values props of
                  Inl e \<Rightarrow> Inl e
                | Inr props' \<Rightarrow> fix_from_items (dict_set obj' ''properties'' (JObj props')))
           | Some p \<Rightarrow> if truthy p then Inl AttributeError else fix_from_items obj'
           | None \<Rightarrow> fix_from_items obj'))"
| "fix_required obj = Inr obj"
| "fix_values [] = Inr []"
| "fix_values ((k, v) # props) =
     (case fix_required v of
        Inl e \<Rightarrow> Inl e
      | Inr v' \<Rightarrow>
          (case fix_values props of
             Inl e \<Rightarrow> Inl e
           | Inr props' \<Rightarrow> Inr ((k, v') # props')))"
| "fix_from_items obj =
     (case dict_get obj ''items'' of
        Some (JObj items) \<Rightarrow>
          (case fix_required (JObj items) of
             Inl e \<Rightarrow> Inl e
           | Inr items' \<Rightarrow> Inr (JObj (dict_set obj ''items'' items')))
      | _ \<Rightarrow> Inr (JObj obj))"
  by pat_completeness auto

lemma fix_required_here_other:
  "fix_required_here obj = Inr obj' \<Longrightarrow> k \<noteq> ''required''
   \<Longrightarrow> dict_get obj' k = dict_get obj k"
  by (auto simp: fix_required_here_def dict_get_dict_set
      split: option.splits json.splits sum.splits)

lemma child_size_le: "child_size d k \<le> size_list (size_prod (\<lambda>x. 0) size) d"
  using rest_size_less[of "[k]" d] by (simp add: rest_size_simps)

termination fix_required
  apply (relation "measure (\<lambda>x. case x of
      Inl j \<Rightarrow> 4 * size j + 3
    | Inr (Inl props) \<Rightarrow> 4 * size (JObj props)
    | Inr (Inr obj) \<Rightarrow> 4 * child_size obj ''items'' + 1)")
            apply simp
           apply (auto simp: fix_required_here_other child_size_get child_size_dict_set
      child_size_def[of _ "''items''"] dict_get_dict_set
      dest!: size_dict_get split: option.splits)
  done

declare fix_from_items.simps [simp del]

lemmas fix_induct = fix_required_fix_values_fix_from_items.induct

subsection \<open>\<^verbatim>\<open>normalize_schema_for_backend\<close> and \<^verbatim>\<open>restore_response_keys\<close>\<close>

text \<open>
  The guard \<^verbatim>\<open>if not schema or not isinstance(schema, dict)\<close> is the two tests in
  the order Python evaluates them.
\<close>

definition normalize_schema_for_backend :: "json \<Rightarrow> error + json \<times> rename_map" where
  "normalize_schema_for_backend schema =
     (if \<not> truthy schema then Inr (schema, [])
      else if \<not> is_dict schema then Inr (schema, [])
      else case norm schema [] of
             Inl e \<Rightarrow> Inl e
           | Inr (normalized, rename_map) \<Rightarrow>
               (case fix_required normalized of
                  Inl e \<Rightarrow> Inl e
                | Inr normalized' \<Rightarrow> Inr (normalized', rename_map)))"

text \<open>
  \<open>restore_items\<close> is the loop over \<^verbatim>\<open>data.items()\<close> that fills \<^verbatim>\<open>out\<close>;
  \<^verbatim>\<open>rename_map.get(k, k)\<close> is the case distinction on \<open>dict_get rename_map k\<close>.
\<close>

fun restore_response_keys :: "json \<Rightarrow> rename_map \<Rightarrow> json"
and restore_items :: "json dict \<Rightarrow> json dict \<Rightarrow> rename_map \<Rightarrow> json dict"
and restore_list :: "json list \<Rightarrow> rename_map \<Rightarrow> json list"
where
  "restore_response_keys (JObj d) rename_map =
     (if rename_map = [] then JObj d else JObj (restore_items d [] rename_map))"
| "restore_response_keys (JArr xs) rename_map =
     (if rename_map = [] then JArr xs else JArr (restore_list xs rename_map))"
| "restore_response_keys data rename_map = data"
| "restore_items [] out rename_map = out"
| "restore_items ((k, v) # d) out rename_map =
     restore_items d
       (dict_set out (case dict_get rename_map k of None \<Rightarrow> k | Some key \<Rightarrow> key)
          (restore_response_keys v rename_map))
       rename_map"
| "restore_list [] rename_map = []"
| "restore_list (x # xs) rename_map =
     restore_response_keys x rename_map # restore_list xs rename_map"

subsection \<open>Notions used to state the properties of the restorer\<close>

text \<open>\<^verbatim>\<open>rename_map.get(k, k)\<close> as a function of the key.\<close>

definition renamed :: "rename_map \<Rightarrow> string \<Rightarrow> string" where
  "renamed rename_map k = (case dict_get rename_map k of None \<Rightarrow> k | Some key \<Rightarrow> key)"

text \<open>The keys of every dictionary of a value, at every depth.\<close>

fun all_keys :: "json \<Rightarrow> string list"
and all_keys_items :: "json dict \<Rightarrow> string list"
and all_keys_list :: "json list \<Rightarrow> string list"
where
  "all_keys (JObj d) = all_keys_items d"
| "all_keys (JArr xs) = all_keys_list xs"
| "all_keys _ = []"
| "all_keys_items [] = []"
| "all_keys_items ((k, v) # d) = k # all_keys v @ all_keys_items d"
| "all_keys_list [] = []"
| "all_keys_list (x # xs) = all_keys x @ all_keys_list xs"

text \<open>
  The renaming as the specification words it: every key of every dictionary is replaced
  by \<open>f\<close> of it, lists are walked element by element, scalars are left alone.
\<close>

fun rename_keys :: "(string \<Rightarrow> string) \<Rightarrow> json \<Rightarrow> json"
and rename_keys_items :: "(string \<Rightarrow> string) \<Rightarrow> json dict \<Rightarrow> json dict"
and rename_keys_list :: "(string \<Rightarrow> string) \<Rightarrow> json list \<Rightarrow> json list"
where
  "rename_keys f (JObj d) = JObj (rename_keys_items f d)"
| "rename_keys f (JArr xs) = JArr (rename_keys_list f xs)"
| "rename_keys f v = v"
| "rename_keys_items f [] = []"
| "rename_keys_items f ((k, v) # d) = (f k, rename_keys f v) # rename_keys_items f d"
| "rename_keys_list f [] = []"
| "rename_keys_list f (x # xs) = rename_keys f x # rename_keys_list f xs"

text \<open>No dictionary of the value has two keys that \<open>f\<close> sends to the same name.\<close>

fun no_collision :: "(string \<Rightarrow> string) \<Rightarrow> json \<Rightarrow> bool"
and no_collision_items :: "(string \<Rightarrow> string) \<Rightarrow> json dict \<Rightarrow> bool"
and no_collision_list :: "(string \<Rightarrow> string) \<Rightarrow> json list \<Rightarrow> bool"
where
  "no_collision f (JObj d) = (distinct (map f (keys d)) \<and> no_collision_items f d)"
| "no_collision f (JArr xs) = no_collision_list f xs"
| "no_collision f v = True"
| "no_collision_items f [] = True"
| "no_collision_items f ((k, v) # d) = (no_collision f v \<and> no_collision_items f d)"
| "no_collision_list f [] = True"
| "no_collision_list f (x # xs) = (no_collision f x \<and> no_collision_list f xs)"

subsection \<open>Notions used to state the properties of the normalizer\<close>

text \<open>
  An entry of the rename map is as the loop over the properties writes it: the original
  name is reserved and the new name is the prefix followed by the original name.
\<close>

definition rename_entry_ok :: "string \<times> string \<Rightarrow> bool" where
  "rename_entry_ok e =
     (snd e \<in> RESERVED_PROP_NAMES \<and> fst e = RESERVED_RENAME_PREFIX @ snd e)"

definition rename_map_ok :: "rename_map \<Rightarrow> bool" where
  "rename_map_ok rm = (list_all rename_entry_ok rm \<and> distinct (keys rm))"

section \<open>Properties of the key restorer\<close>

lemma all_keys_dict_set:
  "set (all_keys_items (dict_set d k v))
   \<subseteq> insert k (set (all_keys v)) \<union> set (all_keys_items d)"
  by (induction d) (auto split: if_splits)

lemma restore_keys_subset:
  "set (all_keys (restore_response_keys data rm)) \<subseteq> renamed rm ` set (all_keys data)"
  "set (all_keys_items (restore_items d out rm)) \<subseteq>
     set (all_keys_items out) \<union> renamed rm ` set (all_keys_items d)"
  "set (all_keys_list (restore_list xs rm)) \<subseteq> renamed rm ` set (all_keys_list xs)"
proof (induction data rm and d out rm and xs rm
    rule: restore_response_keys_restore_items_restore_list.induct)
  case (1 d rename_map)
  then show ?case by (auto simp: renamed_def dict_get_def)
next
  case (2 xs rename_map)
  then show ?case by (auto simp: renamed_def dict_get_def)
next
  case (5 k v d out rename_map)
  have "set (all_keys_items
          (dict_set out (renamed rename_map k) (restore_response_keys v rename_map)))
        \<subseteq> insert (renamed rename_map k)
            (set (all_keys (restore_response_keys v rename_map)))
          \<union> set (all_keys_items out)"
    by (rule all_keys_dict_set)
  with 5 show ?case by (fastforce simp: renamed_def)
qed auto

lemma dict_set_append: "k \<notin> set (keys d) \<Longrightarrow> dict_set d k v = d @ [(k, v)]"
  by (induction d) (auto simp: keys_def)

lemma restore_no_collision:
  "rm \<noteq> [] \<Longrightarrow> no_collision (renamed rm) data
   \<Longrightarrow> restore_response_keys data rm = rename_keys (renamed rm) data"
  "rm \<noteq> [] \<Longrightarrow> no_collision_items (renamed rm) d
   \<Longrightarrow> distinct (keys out @ map (renamed rm) (keys d))
   \<Longrightarrow> restore_items d out rm = out @ rename_keys_items (renamed rm) d"
  "rm \<noteq> [] \<Longrightarrow> no_collision_list (renamed rm) xs
   \<Longrightarrow> restore_list xs rm = rename_keys_list (renamed rm) xs"
proof (induction data rm and d out rm and xs rm
    rule: restore_response_keys_restore_items_restore_list.induct)
  case (5 k v d out rename_map)
  then show ?case by (auto simp: dict_set_append renamed_def keys_def)
qed (auto simp: keys_def)

text \<open>
  C10. \<^verbatim>\<open>restore_response_keys\<close> applies the rename map to the keys of every dictionary
  at every depth, wherever the schema renamed: every key of the result is the renamed
  form of a key of the input, and where no two keys of a dictionary are renamed to the
  same name the result is the input with every key renamed. With the non-empty map
  \<^verbatim>\<open>{"_prop_required": "required"}\<close>, the input
  \<^verbatim>\<open>{"_prop_required": "x", "required": "y"}\<close> holds a renamed key and its original:
  the two entries collapse to the one entry \<^verbatim>\<open>{"required": "y"}\<close>, the later entry
  winning, so the result has fewer entries than the input.
\<close>

theorem restore_every_depth_and_collapse:
  "set (all_keys (restore_response_keys data rename_map))
     \<subseteq> renamed rename_map ` set (all_keys data)
   \<and> (rename_map \<noteq> [] \<and> no_collision (renamed rename_map) data
        \<longrightarrow> restore_response_keys data rename_map
            = rename_keys (renamed rename_map) data)
   \<and> restore_response_keys
         (JObj [(''_prop_required'', JStr ''x''), (''required'', JStr ''y'')])
         [(''_prop_required'', ''required'')]
       = JObj [(''required'', JStr ''y'')]
   \<and> length [(''required'', JStr ''y'')]
       < length [(''_prop_required'', JStr ''x''), (''required'', JStr ''y'')]"
proof -
  have "restore_response_keys
         (JObj [(''_prop_required'', JStr ''x''), (''required'', JStr ''y'')])
         [(''_prop_required'', ''required'')]
       = JObj [(''required'', JStr ''y'')]"
    by (simp add: dict_get_def)
  then show ?thesis
    using restore_keys_subset(1)[of data rename_map]
      restore_no_collision(1)[of rename_map data]
    by simp
qed

theorem restore_every_depth_and_collapse_witness:
  "[(''_prop_type'', ''type'')] \<noteq> []
   \<and> no_collision (renamed [(''_prop_type'', ''type'')])
        (JArr [JObj [(''a'', JObj [(''_prop_type'', JNum 1), (''b'', JNull)])]])
   \<and> restore_response_keys
        (JArr [JObj [(''a'', JObj [(''_prop_type'', JNum 1), (''b'', JNull)])]])
        [(''_prop_type'', ''type'')]
      = JArr [JObj [(''a'', JObj [(''type'', JNum 1), (''b'', JNull)])]]"
  using restore_every_depth_and_collapse
    [of "JArr [JObj [(''a'', JObj [(''_prop_type'', JNum 1), (''b'', JNull)])]]"
        "[(''_prop_type'', ''type'')]"]
  by (simp add: renamed_def dict_get_def keys_def)

section \<open>Properties of the schema normalizer\<close>

text \<open>The schema of the end-to-end scenario and its normal form.\<close>

definition scenario_schema :: json where
  "scenario_schema =
     JObj [(''type'', JStr ''object''),
           (''properties'',
              JObj [(''required'', JObj [(''type'', JStr ''string'')]),
                    (''name'', JObj [(''type'', JStr ''string'')])]),
           (''required'', JBool True)]"

definition scenario_normalized :: json where
  "scenario_normalized =
     JObj [(''type'', JStr ''object''),
           (''properties'',
              JObj [(''_prop_required'', JObj [(''type'', JStr ''string'')]),
                    (''name'', JObj [(''type'', JStr ''string'')])]),
           (''required'', JArr [JStr ''_prop_required'', JStr ''name''])]"

lemmas normalize_eval_defs =
  norm_stage_simps fix_from_items.simps normalize_schema_for_backend_def dict_get_def norm_required_def properties_keys_def
  keys_def RESERVED_PROP_NAMES_def RESERVED_RENAME_PREFIX_def fix_required_here_def

text \<open>
  C2. The schema of the scenario normalizes to a schema whose \<^verbatim>\<open>properties\<close> has exactly
  the keys \<^verbatim>\<open>_prop_required\<close> and \<^verbatim>\<open>name\<close>, whose \<^verbatim>\<open>required\<close> is
  \<^verbatim>\<open>["_prop_required", "name"]\<close>, with the rename map
  \<^verbatim>\<open>{"_prop_required": "required"}\<close>; and the response
  \<^verbatim>\<open>{"_prop_required": "x", "name": "y"}\<close> is restored with that map to
  \<^verbatim>\<open>{"required": "x", "name": "y"}\<close>.
\<close>

theorem scenario_end_to_end:
  "normalize_schema_for_backend scenario_schema
     = Inr (scenario_normalized, [(''_prop_required'', ''required'')])
   \<and> (\<exists>d props. scenario_normalized = JObj d
        \<and> dict_get d ''properties'' = Some (JObj props)
        \<and> keys props = [''_prop_required'', ''name'']
        \<and> dict_get d ''required'' = Some (JArr [JStr ''_prop_required'', JStr ''name'']))
   \<and> restore_response_keys
         (JObj [(''_prop_required'', JStr ''x''), (''name'', JStr ''y'')])
         [(''_prop_required'', ''required'')]
       = JObj [(''required'', JStr ''x''), (''name'', JStr ''y'')]"
  by (simp add: scenario_schema_def scenario_normalized_def normalize_eval_defs)

subsection \<open>The rename map\<close>

lemma keys_dict_set_list:
  "keys (dict_set d k v) = (if k \<in> set (keys d) then keys d else keys d @ [k])"
  by (induction d) (force simp: keys_def)+

lemma keys_dict_set: "set (keys (dict_set d k v)) = insert k (set (keys d))"
  by (auto simp: keys_dict_set_list)

lemma dict_set_distinct: "distinct (keys d) \<Longrightarrow> distinct (keys (dict_set d k v))"
  by (simp add: keys_dict_set_list)

lemma list_all_dict_set: "list_all P d \<Longrightarrow> P (k, v) \<Longrightarrow> list_all P (dict_set d k v)"
  by (induction d) auto

lemma rename_map_ok_set:
  "rename_map_ok rm \<Longrightarrow> k \<in> RESERVED_PROP_NAMES
   \<Longrightarrow> rename_map_ok (dict_set rm (RESERVED_RENAME_PREFIX @ k) k)"
  by (simp add: rename_map_ok_def list_all_dict_set dict_set_distinct rename_entry_ok_def)

lemmas norm_splits = option.splits json.splits sum.splits prod.splits

lemma norm_rename_map_ok:
  "norm j rm = Inr (j', rm') \<Longrightarrow> rename_map_ok rm \<Longrightarrow> rename_map_ok rm'"
  "norm_props props acc rm = Inr (props', rm') \<Longrightarrow> rename_map_ok rm \<Longrightarrow> rename_map_ok rm'"
  "norm_from_items out rm = Inr (j', rm') \<Longrightarrow> rename_map_ok rm \<Longrightarrow> rename_map_ok rm'"
  "norm_from_required out rm = Inr (j', rm') \<Longrightarrow> rename_map_ok rm \<Longrightarrow> rename_map_ok rm'"
  "norm_from_anyOf out rm = Inr (j', rm') \<Longrightarrow> rename_map_ok rm \<Longrightarrow> rename_map_ok rm'"
  "norm_from_oneOf out rm = Inr (j', rm') \<Longrightarrow> rename_map_ok rm \<Longrightarrow> rename_map_ok rm'"
  "norm_from_allOf out rm = Inr (j', rm') \<Longrightarrow> rename_map_ok rm \<Longrightarrow> rename_map_ok rm'"
  "norm_from_defs out rm = Inr (j', rm') \<Longrightarrow> rename_map_ok rm \<Longrightarrow> rename_map_ok rm'"
  "norm_list xs rm = Inr (xs', rm') \<Longrightarrow> rename_map_ok rm \<Longrightarrow> rename_map_ok rm'"
  "norm_defs defs dacc rm = Inr (defs', rm') \<Longrightarrow> rename_map_ok rm \<Longrightarrow> rename_map_ok rm'"
proof (induction j rm and props acc rm and out rm and out rm and out rm and out rm and out rm
    and out rm and xs rm and defs dacc rm
    arbitrary: j' rm' and props' rm' and j' rm' and j' rm' and j' rm' and j' rm' and j' rm'
    and j' rm' and xs' rm' and defs' rm'
    rule: norm_induct)
  case (1 out rm)
  then show ?case
    by (auto split: norm_splits)
next
  case (4 k v props new_props rm)
  then show ?case
    by (auto split: norm_splits if_splits simp: rename_map_ok_set)
next
  case (5 out rm)
  from "5.prems" "5.IH" show ?case
    by (subst (asm) norm_from_items.simps) (auto split: norm_splits)
next
  case (6 out rm)
  from "6.prems" "6.IH" show ?case
    by (subst (asm) norm_from_required.simps) (auto split: norm_splits)
next
  case (7 out rm)
  from "7.prems" "7.IH" show ?case
    by (subst (asm) norm_from_anyOf.simps) (auto split: norm_splits)
next
  case (8 out rm)
  from "8.prems" "8.IH" show ?case
    by (subst (asm) norm_from_oneOf.simps) (auto split: norm_splits)
next
  case (9 out rm)
  from "9.prems" "9.IH" show ?case
    by (subst (asm) norm_from_allOf.simps) (auto split: norm_splits)
next
  case (10 out rm)
  from "10.prems" "10.IH" show ?case
    by (subst (asm) norm_from_defs.simps) (auto split: norm_splits)
next
  case (12 x xs rm)
  then show ?case
    by (auto split: norm_splits if_splits)
next
  case (14 k v defs new_defs rm)
  then show ?case
    by (auto split: norm_splits if_splits)
qed auto

lemma normalize_rename_map_ok:
  assumes "normalize_schema_for_backend schema = Inr (normalized, rm)"
  shows "rename_map_ok rm"
proof (cases "truthy schema \<and> is_dict schema")
  case True
  with assms obtain n where "norm schema [] = Inr (n, rm)"
    by (auto simp: normalize_schema_for_backend_def split: sum.splits prod.splits)
  from norm_rename_map_ok(1)[OF this] show ?thesis
    by (simp add: rename_map_ok_def keys_def)
next
  case False
  with assms have "rm = []"
    by (auto simp: normalize_schema_for_backend_def split: if_splits)
  then show ?thesis by (simp add: rename_map_ok_def keys_def)
qed

lemma rename_map_ok_length:
  assumes "rename_map_ok rm"
  shows "length rm \<le> 5"
proof -
  from assms have d: "distinct (keys rm)" and a: "list_all rename_entry_ok rm"
    by (simp_all add: rename_map_ok_def)
  from a have "set (keys rm) \<subseteq> (\<lambda>k. RESERVED_RENAME_PREFIX @ k) ` RESERVED_PROP_NAMES"
    by (auto simp: keys_def list_all_iff rename_entry_ok_def)
  then have "card (set (keys rm)) \<le> card ((\<lambda>k. RESERVED_RENAME_PREFIX @ k) ` RESERVED_PROP_NAMES)"
    by (rule card_mono[rotated]) (simp add: RESERVED_PROP_NAMES_def)
  also have "\<dots> \<le> card RESERVED_PROP_NAMES"
    by (rule card_image_le) (simp add: RESERVED_PROP_NAMES_def)
  also have "\<dots> = 5"
    by (simp add: RESERVED_PROP_NAMES_def)
  finally have "card (set (keys rm)) \<le> 5" .
  moreover from d have "card (set (keys rm)) = length (keys rm)"
    by (rule distinct_card)
  moreover have "length (keys rm) = length rm"
    by (simp add: keys_def)
  ultimately show ?thesis by simp
qed

text \<open>
  C9. Every entry \<open>(newKey, originalKey)\<close> of the rename map that
  \<^verbatim>\<open>normalize_schema_for_backend\<close> returns has a reserved \<open>originalKey\<close> and
  \<open>newKey = "_prop_" + originalKey\<close>; so the map has at most five entries, whatever the
  size of the schema.
\<close>

theorem rename_map_entries_reserved:
  assumes "normalize_schema_for_backend schema = Inr (normalized, rename_map)"
  shows "list_all (\<lambda>(newKey, originalKey).
             originalKey \<in> RESERVED_PROP_NAMES
             \<and> newKey = RESERVED_RENAME_PREFIX @ originalKey) rename_map
         \<and> length rename_map \<le> 5"
proof -
  from normalize_rename_map_ok[OF assms] have ok: "rename_map_ok rename_map" .
  then have "list_all rename_entry_ok rename_map"
    by (simp add: rename_map_ok_def)
  then have "list_all (\<lambda>(newKey, originalKey).
             originalKey \<in> RESERVED_PROP_NAMES
             \<and> newKey = RESERVED_RENAME_PREFIX @ originalKey) rename_map"
    by (simp add: list_all_iff rename_entry_ok_def case_prod_beta)
  with rename_map_ok_length[OF ok] show ?thesis by simp
qed

theorem rename_map_entries_reserved_witness:
  "normalize_schema_for_backend
     (JObj [(''properties'',
        JObj [(''type'', JObj [(''properties'', JObj [(''items'', JNull)])]),
              (''a'', JObj [(''properties'', JObj [(''type'', JNull)])])])])
     = Inr (JObj [(''properties'',
              JObj [(''_prop_type'',
                      JObj [(''properties'', JObj [(''_prop_items'', JNull)]),
                            (''required'', JArr [])]),
                    (''a'', JObj [(''properties'', JObj [(''_prop_type'', JNull)]),
                                  (''required'', JArr [])])]),
             (''required'', JArr [])],
            [(''_prop_type'', ''type''), (''_prop_items'', ''items'')])
   \<and> list_all (\<lambda>(newKey, originalKey).
             originalKey \<in> RESERVED_PROP_NAMES
             \<and> newKey = RESERVED_RENAME_PREFIX @ originalKey)
         [(''_prop_type'', ''type''), (''_prop_items'', ''items'')]
   \<and> length [(''_prop_type'', ''type''), (''_prop_items'', ''items'')] \<le> (5::nat)"
proof -
  have e: "normalize_schema_for_backend
     (JObj [(''properties'',
        JObj [(''type'', JObj [(''properties'', JObj [(''items'', JNull)])]),
              (''a'', JObj [(''properties'', JObj [(''type'', JNull)])])])])
     = Inr (JObj [(''properties'',
              JObj [(''_prop_type'',
                      JObj [(''properties'', JObj [(''_prop_items'', JNull)]),
                            (''required'', JArr [])]),
                    (''a'', JObj [(''properties'', JObj [(''_prop_type'', JNull)]),
                                  (''required'', JArr [])])]),
             (''required'', JArr [])],
            [(''_prop_type'', ''type''), (''_prop_items'', ''items'')])"
    by (simp add: normalize_eval_defs)
  from rename_map_entries_reserved[OF e] e show ?thesis by simp
qed

text \<open>
  C1, at a node below \<^verbatim>\<open>anyOf\<close>. \<^verbatim>\<open>_norm\<close> renames the property \<^verbatim>\<open>type\<close> of the
  node, and \<^verbatim>\<open>_fix_required\<close>, which only follows \<^verbatim>\<open>properties\<close> and a dictionary
  under \<^verbatim>\<open>items\<close>, never reaches the node: its \<^verbatim>\<open>required\<close> still names \<^verbatim>\<open>type\<close>,
  which is no key of the renamed \<^verbatim>\<open>properties\<close>.
\<close>

theorem fix_required_skips_anyOf:
  "normalize_schema_for_backend
     (JObj [(''anyOf'',
        JArr [JObj [(''properties'', JObj [(''type'', JObj [(''type'', JStr ''string'')])]),
                    (''required'', JArr [JStr ''type''])]])])
   = Inr (JObj [(''anyOf'',
            JArr [JObj [(''properties'',
                          JObj [(''_prop_type'', JObj [(''type'', JStr ''string'')])]),
                        (''required'', JArr [JStr ''type''])]])],
          [(''_prop_type'', ''type'')])"
  by (simp add: normalize_eval_defs)

section \<open>Python strings\<close>

text \<open>
  A string is the list of its code points, taken below 256. \<open>lower\<close> is
  \<^verbatim>\<open>str.lower\<close> there (the capital letters of ASCII and Latin-1), \<open>is_space\<close> is
  \<^verbatim>\<open>str.isspace\<close> on one character, which \<^verbatim>\<open>str.strip\<close> and the class \<^verbatim>\<open>\s\<close> of
  regular expressions use; \<open>is_substring p s\<close> is \<^verbatim>\<open>p in s\<close>, \<open>startswith s p\<close> is
  \<^verbatim>\<open>s.startswith(p)\<close> and \<open>join sep xs\<close> is \<^verbatim>\<open>sep.join(xs)\<close>, which raises
  \<^verbatim>\<open>TypeError\<close> on an item that is not a string (\<open>join_json\<close>).
  \<open>strip_is_empty s\<close> says that \<^verbatim>\<open>s.strip()\<close> is the empty string.
\<close>

definition lower_char :: "char \<Rightarrow> char" where
  "lower_char c =
     (let n = (of_char c :: nat)
      in if (65 \<le> n \<and> n \<le> 90) \<or> (192 \<le> n \<and> n \<le> 222 \<and> n \<noteq> 215)
         then char_of (n + 32) else c)"

definition lower :: "string \<Rightarrow> string" where
  "lower s = map lower_char s"

definition startswith :: "string \<Rightarrow> string \<Rightarrow> bool" where
  "startswith s p = (take (length p) s = p)"

fun is_substring :: "string \<Rightarrow> string \<Rightarrow> bool" where
  "is_substring p [] = (p = [])"
| "is_substring p (c # s) = (startswith (c # s) p \<or> is_substring p s)"

fun join :: "string \<Rightarrow> string list \<Rightarrow> string" where
  "join sep [] = []"
| "join sep [x] = x"
| "join sep (x # y # xs) = x @ sep @ join sep (y # xs)"



fun strings_of :: "json list \<Rightarrow> error + string list" where
  "strings_of [] = Inr []"
| "strings_of (JStr s # xs) =
     (case strings_of xs of Inl e \<Rightarrow> Inl e | Inr ss \<Rightarrow> Inr (s # ss))"
| "strings_of (x # xs) = Inl TypeError"

definition join_json :: "string \<Rightarrow> json list \<Rightarrow> error + string" where
  "join_json sep xs = (case strings_of xs of Inl e \<Rightarrow> Inl e | Inr ss \<Rightarrow> Inr (join sep ss))"




section \<open>Backend clients (\<^verbatim>\<open>jig/client.py\<close>, \<^verbatim>\<open>jig/ollama_client.py\<close>)\<close>

text \<open>
  Both clients hold a base URL and the configured model, \<^verbatim>\<open>None\<close> when none is
  configured; \<^verbatim>\<open>ensure_model\<close> assigns to the field. The HTTP request of
  \<^verbatim>\<open>_get_models\<close> is outside the program: its outcome \<open>fetched\<close> is either the exception
  that \<^verbatim>\<open>requests.get\<close>, \<^verbatim>\<open>raise_for_status\<close> or \<^verbatim>\<open>resp.json\<close> raised, or the decoded
  body. \<open>get_models key\<close> is the rest of \<^verbatim>\<open>_get_models\<close>, with the key \<^verbatim>\<open>data\<close> for
  LM Studio and \<^verbatim>\<open>models\<close> for Ollama: \<^verbatim>\<open>data.get\<close> raises \<^verbatim>\<open>AttributeError\<close> on a body
  that is not a dictionary.
\<close>

record client =
  base_url :: string
  model :: json

definition get_models :: "string \<Rightarrow> error + json \<Rightarrow> error + json list" where
  "get_models key fetched =
     (case fetched of
        Inl e \<Rightarrow> Inl e
      | Inr data \<Rightarrow>
          (case data of
             JObj d \<Rightarrow>
               (case dict_get d key of
                  None \<Rightarrow> Inr []
                | Some (JArr models) \<Rightarrow> Inr models
                | Some _ \<Rightarrow> Inr [])
           | _ \<Rightarrow> Inl AttributeError))"

subsection \<open>\<^verbatim>\<open>preflight\<close>\<close>

text \<open>
  \<open>lm_names\<close> and \<open>ollama_names\<close> are the comprehensions that collect the names;
  \<open>lm_preflight_try\<close> and \<open>ollama_preflight_try\<close> are the bodies of the \<^verbatim>\<open>try\<close>
  statements, \<open>lm_preflight\<close> and \<open>ollama_preflight\<close> add the two handlers. \<open>str\<close> is
  Python's \<^verbatim>\<open>str(e)\<close> of an exception.
\<close>

fun lm_names :: "json list \<Rightarrow> error + json list" where
  "lm_names [] = Inr []"
| "lm_names (JObj m # models) =
     (case lm_names models of
        Inl e \<Rightarrow> Inl e
      | Inr names \<Rightarrow>
          Inr ((case dict_get m ''id'' of None \<Rightarrow> JStr ''unknown'' | Some v \<Rightarrow> v) # names))"
| "lm_names (m # models) = Inl AttributeError"

definition lm_preflight_try :: "client \<Rightarrow> error + json \<Rightarrow> error + bool \<times> string" where
  "lm_preflight_try c fetched =
     (case get_models ''data'' fetched of
        Inl e \<Rightarrow> Inl e
      | Inr models \<Rightarrow>
          if models = [] then Inr (False, ''Reached '' @ base_url c @ '' but no models loaded'')
          else (case lm_names models of
                  Inl e \<Rightarrow> Inl e
                | Inr names \<Rightarrow>
                    (case join_json '', '' (take 3 names) of
                       Inl e \<Rightarrow> Inl e
                     | Inr s \<Rightarrow> Inr (True, ''Connected | Models: '' @ s))))"

fun is_request_exception :: "error \<Rightarrow> bool" where
  "is_request_exception (RequestException m) = True"
| "is_request_exception _ = False"

definition lm_preflight ::
  "(error \<Rightarrow> string) \<Rightarrow> client \<Rightarrow> error + json \<Rightarrow> error + bool \<times> string" where
  "lm_preflight str c fetched =
     (case lm_preflight_try c fetched of
        Inr r \<Rightarrow> Inr r
      | Inl e \<Rightarrow>
          if is_request_exception e then Inr (False, ''Connection failed: '' @ str e)
          else Inr (False, ''Error: '' @ str e))"

fun ollama_names :: "json list \<Rightarrow> error + json list" where
  "ollama_names [] = Inr []"
| "ollama_names (JObj m # models) =
     (case ollama_names models of
        Inl e \<Rightarrow> Inl e
      | Inr names \<Rightarrow>
          Inr ((case dict_get m ''name'' of
                  None \<Rightarrow> (case dict_get m ''model'' of None \<Rightarrow> JStr ''unknown'' | Some v \<Rightarrow> v)
                | Some v \<Rightarrow> v) # names))"
| "ollama_names (m # models) = Inl AttributeError"

definition ollama_preflight_try :: "client \<Rightarrow> error + json \<Rightarrow> error + bool \<times> string" where
  "ollama_preflight_try c fetched =
     (case get_models ''models'' fetched of
        Inl e \<Rightarrow> Inl e
      | Inr models \<Rightarrow>
          if models = [] then Inr (False, ''Reached '' @ base_url c @ '' but no models found'')
          else (case ollama_names models of
                  Inl e \<Rightarrow> Inl e
                | Inr names \<Rightarrow>
                    (case join_json '', '' (take 3 names) of
                       Inl e \<Rightarrow> Inl e
                     | Inr s \<Rightarrow> Inr (True, ''Connected | Models: '' @ s))))"

definition ollama_preflight ::
  "(error \<Rightarrow> string) \<Rightarrow> client \<Rightarrow> error + json \<Rightarrow> error + bool \<times> string" where
  "ollama_preflight str c fetched =
     (case ollama_preflight_try c fetched of
        Inr r \<Rightarrow> Inr r
      | Inl e \<Rightarrow>
          if is_request_exception e then Inr (False, ''Connection failed: '' @ str e)
          else Inr (False, ''Error: '' @ str e))"

subsection \<open>\<^verbatim>\<open>ensure_model\<close>\<close>

text \<open>
  \<open>lm_ids\<close> and \<open>ollama_ids\<close> collect the available ids; \<open>lm_partial\<close> and
  \<open>ollama_partial\<close> are the comprehensions that compute \<^verbatim>\<open>partial\<close>, where
  \<^verbatim>\<open>.lower()\<close> raises \<^verbatim>\<open>AttributeError\<close> on a value that is not a string (\<open>py_lower\<close>);
  \<open>py_short\<close> is \<^verbatim>\<open>self.model.split(":")[0].lower()\<close>. \<open>not_found\<close> is the exception
  of the last \<^verbatim>\<open>raise\<close>, whose message joins the ids. The result is the returned id
  together with the client after the assignment to \<^verbatim>\<open>self.model\<close>.
\<close>

fun lm_ids :: "json list \<Rightarrow> json list" where
  "lm_ids [] = []"
| "lm_ids (JObj m # models) =
     (case dict_get m ''id'' of
        None \<Rightarrow> lm_ids models
      | Some v \<Rightarrow> if truthy v then v # lm_ids models else lm_ids models)"
| "lm_ids (m # models) = lm_ids models"

fun py_lower :: "json \<Rightarrow> error + string" where
  "py_lower (JStr s) = Inr (lower s)"
| "py_lower _ = Inl AttributeError"

fun lm_partial :: "json \<Rightarrow> json list \<Rightarrow> error + json list" where
  "lm_partial m [] = Inr []"
| "lm_partial m (mid # ids) =
     (case py_lower m of
        Inl e \<Rightarrow> Inl e
      | Inr needle \<Rightarrow>
          (case py_lower (if truthy mid then mid else JStr []) of
             Inl e \<Rightarrow> Inl e
           | Inr hay \<Rightarrow>
               (case lm_partial m ids of
                  Inl e \<Rightarrow> Inl e
                | Inr partial \<Rightarrow>
                    Inr (if is_substring needle hay then mid # partial else partial))))"

fun py_format :: "json \<Rightarrow> string" where
  "py_format (JStr s) = s"
| "py_format _ = []"

definition not_found ::
  "json \<Rightarrow> json list \<Rightarrow> error" where
  "not_found m ids =
     (case join_json '', '' ids of
        Inl e \<Rightarrow> e
      | Inr s \<Rightarrow> RuntimeError (''Model '' @ [CHR 0x27] @ py_format m @ [CHR 0x27]
                                @ '' not found. Available: '' @ s))"

definition lm_ensure_model :: "client \<Rightarrow> error + json \<Rightarrow> error + json \<times> client" where
  "lm_ensure_model c fetched =
     (case get_models ''data'' fetched of
        Inl e \<Rightarrow> Inl e
      | Inr models \<Rightarrow>
          (let ids = lm_ids models in
           if ids = [] then
             Inl (RuntimeError (''No models found at '' @ base_url c
                                @ ''/models. Load a model in LM Studio first.''))
           else if truthy (model c) then
             (if model c \<in> set ids then Inr (model c, c)
              else (case lm_partial (model c) ids of
                      Inl e \<Rightarrow> Inl e
                    | Inr partial \<Rightarrow>
                        if length partial = 1
                        then Inr (hd partial, c\<lparr>model := hd partial\<rparr>)
                        else Inl (not_found (model c) ids)))
           else Inr (hd ids, c\<lparr>model := hd ids\<rparr>)))"

fun ollama_ids :: "json list \<Rightarrow> error + json list" where
  "ollama_ids [] = Inr []"
| "ollama_ids (JObj m # models) =
     (let name = (case dict_get m ''name'' of
                    None \<Rightarrow> dict_get m ''model''
                  | Some v \<Rightarrow> if truthy v then Some v else dict_get m ''model'')
      in case ollama_ids models of
           Inl e \<Rightarrow> Inl e
         | Inr ids \<Rightarrow>
             (case name of
                None \<Rightarrow> Inr ids
              | Some v \<Rightarrow> if truthy v then Inr (v # ids) else Inr ids))"
| "ollama_ids (m # models) = Inl AttributeError"

fun py_short :: "json \<Rightarrow> error + string" where
  "py_short (JStr s) = Inr (lower (takeWhile (\<lambda>c. c \<noteq> CHR '':'') s))"
| "py_short _ = Inl AttributeError"

fun ollama_partial :: "string \<Rightarrow> json list \<Rightarrow> error + json list" where
  "ollama_partial short [] = Inr []"
| "ollama_partial short (mid # ids) =
     (case py_lower mid of
        Inl e \<Rightarrow> Inl e
      | Inr hay \<Rightarrow>
          (case ollama_partial short ids of
             Inl e \<Rightarrow> Inl e
           | Inr partial \<Rightarrow>
               Inr (if is_substring short hay then mid # partial
                    else if startswith hay short then mid # partial
                    else partial)))"

definition ollama_ensure_model :: "client \<Rightarrow> error + json \<Rightarrow> error + json \<times> client" where
  "ollama_ensure_model c fetched =
     (case get_models ''models'' fetched of
        Inl e \<Rightarrow> Inl e
      | Inr models \<Rightarrow>
          (case ollama_ids models of
             Inl e \<Rightarrow> Inl e
           | Inr ids \<Rightarrow>
               if ids = [] then
                 Inl (RuntimeError (''No models found at '' @ base_url c @ ''/api/tags. ''
                                    @ ''Pull a model first: ollama pull zai-org/GLM-4.6''))
               else if truthy (model c) then
                 (if model c \<in> set ids then Inr (model c, c)
                  else (case py_short (model c) of
                          Inl e \<Rightarrow> Inl e
                        | Inr short \<Rightarrow>
                            (case ollama_partial short ids of
                               Inl e \<Rightarrow> Inl e
                             | Inr partial \<Rightarrow>
                                 if length partial = 1
                                 then Inr (hd partial, c\<lparr>model := hd partial\<rparr>)
                                 else Inl (not_found (model c) ids))))
               else Inr (hd ids, c\<lparr>model := hd ids\<rparr>)))"


subsection \<open>\<^verbatim>\<open>generate_structured_stream\<close>\<close>














section \<open>Pairing repository (\<^verbatim>\<open>jig/repository.py\<close>)\<close>











section \<open>Notions used to state the properties of the clients\<close>

text \<open>
  The ids that match a configured name \<open>m\<close>: for LM Studio those that contain \<open>m\<close> as a
  substring, for Ollama those that contain \<open>m\<close> cut at its first colon, both without
  regard to case. \<open>not_found_message\<close> is the text of the error that names all ids.
\<close>

definition lm_matches :: "string \<Rightarrow> string list \<Rightarrow> string list" where
  "lm_matches m ids = filter (\<lambda>i. is_substring (lower m) (lower i)) ids"

definition ollama_short :: "string \<Rightarrow> string" where
  "ollama_short m = lower (takeWhile (\<lambda>c. c \<noteq> CHR '':'') m)"

definition ollama_matches :: "string \<Rightarrow> string list \<Rightarrow> string list" where
  "ollama_matches m ids =
     filter (\<lambda>i. is_substring (ollama_short m) (lower i)) ids"

definition not_found_message :: "string \<Rightarrow> string list \<Rightarrow> string" where
  "not_found_message m ids =
     ''Model '' @ [CHR 0x27] @ m @ [CHR 0x27] @ '' not found. Available: '' @ join '', '' ids"





text \<open>The scenario of the specification: two available models.\<close>

definition example_ids :: "string list" where
  "example_ids = [''zai-org/GLM-4.6'', ''llama3.1'']"

definition lm_example_fetched :: "error + json" where
  "lm_example_fetched =
     Inr (JObj [(''data'', JArr [JObj [(''id'', JStr ''zai-org/GLM-4.6'')],
                                  JObj [(''id'', JStr ''llama3.1'')]])])"

definition ollama_example_fetched :: "error + json" where
  "ollama_example_fetched =
     Inr (JObj [(''models'', JArr [JObj [(''name'', JStr ''zai-org/GLM-4.6'')],
                                    JObj [(''name'', JStr ''llama3.1'')]])])"





section \<open>Properties of the clients\<close>

subsection \<open>Model resolution\<close>

lemmas string_eval_defs =
  lower_def lower_char_def startswith_def char_of_def bit_0 bit_Suc lm_matches_def
  ollama_matches_def ollama_short_def not_found_message_def

lemma strings_of_map: "strings_of (map JStr ids) = Inr ids"
  by (induction ids) auto

lemma join_json_map: "join_json sep (map JStr ids) = Inr (join sep ids)"
  by (simp add: join_json_def strings_of_map)

lemma lm_partial_map:
  "lm_partial (JStr m) (map JStr ids) = Inr (map JStr (lm_matches m ids))"
  by (induction ids) (auto simp: lm_matches_def)

lemma startswith_substring: "startswith s p \<Longrightarrow> is_substring p s"
  by (cases s) (auto simp: startswith_def)

lemma ollama_partial_map:
  "ollama_partial (ollama_short m) (map JStr ids) = Inr (map JStr (ollama_matches m ids))"
  by (induction ids) (auto simp: ollama_matches_def startswith_substring)

lemma not_found_map: "not_found (JStr m) (map JStr ids) = RuntimeError (not_found_message m ids)"
  by (simp add: not_found_def join_json_map not_found_message_def)

lemma hd_map_single: "length xs = Suc 0 \<Longrightarrow> hd (map f xs) = f (hd xs)"
  by (cases xs) auto

lemma lm_ensure_model_cases:
  assumes "get_models ''data'' fetched = Inr models" "lm_ids models = map JStr ids" "ids \<noteq> []"
  shows "lm_ensure_model c fetched =
     (if truthy (model c) then
        (case model c of
           JStr m \<Rightarrow>
             if m \<in> set ids then Inr (JStr m, c)
             else if length (lm_matches m ids) = 1
             then Inr (JStr (hd (lm_matches m ids)), c\<lparr>model := JStr (hd (lm_matches m ids))\<rparr>)
             else Inl (RuntimeError (not_found_message m ids))
         | _ \<Rightarrow> Inl AttributeError)
      else Inr (JStr (hd ids), c\<lparr>model := JStr (hd ids)\<rparr>))"
proof (cases "model c")
  case (JStr m)
  with assms show ?thesis
    by (auto simp: lm_ensure_model_def Let_def lm_partial_map not_found_map hd_map
        hd_map_single)
next
  case JNull
  with assms show ?thesis
    by (auto simp: lm_ensure_model_def Let_def hd_map)
next
  case (JBool b)
  with assms show ?thesis
    by (cases ids) (auto simp: lm_ensure_model_def Let_def hd_map)
next
  case (JNum n)
  with assms show ?thesis
    by (cases ids) (auto simp: lm_ensure_model_def Let_def hd_map)
next
  case (JArr xs)
  with assms show ?thesis
    by (cases ids) (auto simp: lm_ensure_model_def Let_def hd_map)
next
  case (JObj d)
  with assms show ?thesis
    by (cases ids) (auto simp: lm_ensure_model_def Let_def hd_map)
qed

lemma ollama_ensure_model_cases:
  assumes "get_models ''models'' fetched = Inr models" "ollama_ids models = Inr (map JStr ids)"
    "ids \<noteq> []"
  shows "ollama_ensure_model c fetched =
     (if truthy (model c) then
        (case model c of
           JStr m \<Rightarrow>
             if m \<in> set ids then Inr (JStr m, c)
             else if length (ollama_matches m ids) = 1
             then Inr (JStr (hd (ollama_matches m ids)),
                       c\<lparr>model := JStr (hd (ollama_matches m ids))\<rparr>)
             else Inl (RuntimeError (not_found_message m ids))
         | _ \<Rightarrow> Inl AttributeError)
      else Inr (JStr (hd ids), c\<lparr>model := JStr (hd ids)\<rparr>))"
proof (cases "model c")
  case (JStr m)
  with assms show ?thesis
    using ollama_partial_map[of m ids]
    by (auto simp: ollama_ensure_model_def Let_def not_found_map hd_map
        hd_map_single ollama_short_def)
next
  case JNull
  with assms show ?thesis
    by (auto simp: ollama_ensure_model_def Let_def hd_map)
next
  case (JBool b)
  with assms show ?thesis
    by (cases ids) (auto simp: ollama_ensure_model_def Let_def hd_map)
next
  case (JNum n)
  with assms show ?thesis
    by (cases ids) (auto simp: ollama_ensure_model_def Let_def hd_map)
next
  case (JArr xs)
  with assms show ?thesis
    by (cases ids) (auto simp: ollama_ensure_model_def Let_def hd_map)
next
  case (JObj d)
  with assms show ?thesis
    by (cases ids) (auto simp: ollama_ensure_model_def Let_def hd_map)
qed

lemma example_matches:
  "lm_matches ''glm'' example_ids = [''zai-org/GLM-4.6'']"
  "ollama_matches ''glm'' example_ids = [''zai-org/GLM-4.6'']"
  "lm_matches ''a'' example_ids = example_ids"
  "ollama_matches ''a'' example_ids = example_ids"
  by (simp_all add: example_ids_def string_eval_defs)

lemma example_available:
  "get_models ''data'' lm_example_fetched
     = Inr [JObj [(''id'', JStr ''zai-org/GLM-4.6'')], JObj [(''id'', JStr ''llama3.1'')]]"
  "lm_ids [JObj [(''id'', JStr ''zai-org/GLM-4.6'')], JObj [(''id'', JStr ''llama3.1'')]]
     = map JStr example_ids"
  "get_models ''models'' ollama_example_fetched
     = Inr [JObj [(''name'', JStr ''zai-org/GLM-4.6'')], JObj [(''name'', JStr ''llama3.1'')]]"
  "ollama_ids [JObj [(''name'', JStr ''zai-org/GLM-4.6'')], JObj [(''name'', JStr ''llama3.1'')]]
     = Inr (map JStr example_ids)"
  by (simp_all add: example_ids_def lm_example_fetched_def ollama_example_fetched_def
      get_models_def dict_get_def)

lemma example_resolves:
  "lm_ensure_model \<lparr>base_url = u, model = JStr ''glm''\<rparr> lm_example_fetched
     = Inr (JStr ''zai-org/GLM-4.6'', \<lparr>base_url = u, model = JStr ''zai-org/GLM-4.6''\<rparr>)"
  "ollama_ensure_model \<lparr>base_url = u, model = JStr ''glm''\<rparr> ollama_example_fetched
     = Inr (JStr ''zai-org/GLM-4.6'', \<lparr>base_url = u, model = JStr ''zai-org/GLM-4.6''\<rparr>)"
  "lm_ensure_model \<lparr>base_url = u, model = JStr ''a''\<rparr> lm_example_fetched
     = Inl (RuntimeError (not_found_message ''a'' [''zai-org/GLM-4.6'', ''llama3.1'']))"
  "ollama_ensure_model \<lparr>base_url = u, model = JStr ''a''\<rparr> ollama_example_fetched
     = Inl (RuntimeError (not_found_message ''a'' [''zai-org/GLM-4.6'', ''llama3.1'']))"
proof -
  have ne: "example_ids \<noteq> []" by (simp add: example_ids_def)
  note lme = lm_ensure_model_cases[OF example_available(1,2) ne]
  note ole = ollama_ensure_model_cases[OF example_available(3,4) ne]
  show
    "lm_ensure_model \<lparr>base_url = u, model = JStr ''glm''\<rparr> lm_example_fetched
     = Inr (JStr ''zai-org/GLM-4.6'', \<lparr>base_url = u, model = JStr ''zai-org/GLM-4.6''\<rparr>)"
    "ollama_ensure_model \<lparr>base_url = u, model = JStr ''glm''\<rparr> ollama_example_fetched
     = Inr (JStr ''zai-org/GLM-4.6'', \<lparr>base_url = u, model = JStr ''zai-org/GLM-4.6''\<rparr>)"
    "lm_ensure_model \<lparr>base_url = u, model = JStr ''a''\<rparr> lm_example_fetched
     = Inl (RuntimeError (not_found_message ''a'' [''zai-org/GLM-4.6'', ''llama3.1'']))"
    "ollama_ensure_model \<lparr>base_url = u, model = JStr ''a''\<rparr> ollama_example_fetched
     = Inl (RuntimeError (not_found_message ''a'' [''zai-org/GLM-4.6'', ''llama3.1'']))"
    by (simp_all add: lme ole example_matches) (simp_all add: example_ids_def)
qed

text \<open>
  C5, as amended. When the backend reports at least one id and all reported ids are
  strings: a configured name that is one of the ids is returned; otherwise LM Studio
  returns and remembers the only id that contains the configured name as a
  case-insensitive substring, and Ollama the only id that contains, without regard to
  case, the configured name cut at its first colon; with no such id or several, both fail
  with an error whose message names all ids; with no model configured, both return and
  remember the first id. The hint \<^verbatim>\<open>glm\<close> against \<^verbatim>\<open>zai-org/GLM-4.6\<close> and \<^verbatim>\<open>llama3.1\<close>
  resolves to \<^verbatim>\<open>zai-org/GLM-4.6\<close>, and the hint \<^verbatim>\<open>a\<close> fails naming both.
\<close>

theorem ensure_model_resolution:
  assumes "get_models ''data'' lm_fetched = Inr lm_models"
    and "lm_ids lm_models = map JStr ids"
    and "get_models ''models'' ollama_fetched = Inr ollama_models"
    and "ollama_ids ollama_models = Inr (map JStr ids)"
    and "ids \<noteq> []"
  shows
    "(model c = JStr m \<and> m \<noteq> [] \<and> m \<in> set ids
        \<longrightarrow> lm_ensure_model c lm_fetched = Inr (JStr m, c)
          \<and> ollama_ensure_model c ollama_fetched = Inr (JStr m, c))
     \<and> (model c = JStr m \<and> m \<noteq> [] \<and> m \<notin> set ids \<and> lm_matches m ids = [i]
        \<longrightarrow> lm_ensure_model c lm_fetched = Inr (JStr i, c\<lparr>model := JStr i\<rparr>))
     \<and> (model c = JStr m \<and> m \<noteq> [] \<and> m \<notin> set ids \<and> length (lm_matches m ids) \<noteq> 1
        \<longrightarrow> lm_ensure_model c lm_fetched = Inl (RuntimeError (not_found_message m ids)))
     \<and> (model c = JStr m \<and> m \<noteq> [] \<and> m \<notin> set ids \<and> ollama_matches m ids = [i]
        \<longrightarrow> ollama_ensure_model c ollama_fetched = Inr (JStr i, c\<lparr>model := JStr i\<rparr>))
     \<and> (model c = JStr m \<and> m \<noteq> [] \<and> m \<notin> set ids \<and> length (ollama_matches m ids) \<noteq> 1
        \<longrightarrow> ollama_ensure_model c ollama_fetched
            = Inl (RuntimeError (not_found_message m ids)))
     \<and> (model c = JNull \<or> model c = JStr []
        \<longrightarrow> lm_ensure_model c lm_fetched = Inr (JStr (hd ids), c\<lparr>model := JStr (hd ids)\<rparr>)
          \<and> ollama_ensure_model c ollama_fetched
              = Inr (JStr (hd ids), c\<lparr>model := JStr (hd ids)\<rparr>))
     \<and> lm_ensure_model \<lparr>base_url = u, model = JStr ''glm''\<rparr> lm_example_fetched
         = Inr (JStr ''zai-org/GLM-4.6'', \<lparr>base_url = u, model = JStr ''zai-org/GLM-4.6''\<rparr>)
     \<and> ollama_ensure_model \<lparr>base_url = u, model = JStr ''glm''\<rparr> ollama_example_fetched
         = Inr (JStr ''zai-org/GLM-4.6'', \<lparr>base_url = u, model = JStr ''zai-org/GLM-4.6''\<rparr>)
     \<and> lm_ensure_model \<lparr>base_url = u, model = JStr ''a''\<rparr> lm_example_fetched
         = Inl (RuntimeError (not_found_message ''a'' [''zai-org/GLM-4.6'', ''llama3.1'']))
     \<and> ollama_ensure_model \<lparr>base_url = u, model = JStr ''a''\<rparr> ollama_example_fetched
         = Inl (RuntimeError (not_found_message ''a'' [''zai-org/GLM-4.6'', ''llama3.1'']))"
proof -
  note lm = lm_ensure_model_cases[OF assms(1,2,5), of c]
  note ol = ollama_ensure_model_cases[OF assms(3,4,5), of c]
  show ?thesis
    using example_resolves[of u] by (auto simp: lm ol)
qed

theorem ensure_model_resolution_witness:
  "get_models ''data'' lm_example_fetched
     = Inr [JObj [(''id'', JStr ''zai-org/GLM-4.6'')], JObj [(''id'', JStr ''llama3.1'')]]
   \<and> example_ids \<noteq> []
   \<and> ''glm'' \<notin> set example_ids
   \<and> lm_matches ''glm'' example_ids = [''zai-org/GLM-4.6'']
   \<and> ollama_matches ''glm'' example_ids = [''zai-org/GLM-4.6'']
   \<and> lm_ensure_model \<lparr>base_url = ''http://localhost:1234/v1'', model = JStr ''glm''\<rparr>
         lm_example_fetched
       = Inr (JStr ''zai-org/GLM-4.6'',
              \<lparr>base_url = ''http://localhost:1234/v1'', model = JStr ''zai-org/GLM-4.6''\<rparr>)
   \<and> ollama_ensure_model \<lparr>base_url = ''http://localhost:1234/v1'', model = JStr ''glm''\<rparr>
         ollama_example_fetched
       = Inr (JStr ''zai-org/GLM-4.6'',
              \<lparr>base_url = ''http://localhost:1234/v1'', model = JStr ''zai-org/GLM-4.6''\<rparr>)"
proof -
  have ne: "example_ids \<noteq> []" and notin: "''glm'' \<notin> set example_ids"
    by (simp_all add: example_ids_def)
  from ensure_model_resolution[OF example_available ne,
      of "\<lparr>base_url = ''http://localhost:1234/v1'', model = JStr ''glm''\<rparr>"
         "''glm''" "''zai-org/GLM-4.6''"]
    example_matches example_available ne notin
  show ?thesis by simp
qed

text \<open>
  C5, as stated, fails for Ollama: the configured name \<^verbatim>\<open>llama3:70b\<close> is not an id and
  no id contains it, yet \<^verbatim>\<open>ensure_model\<close> returns \<^verbatim>\<open>llama3:8b\<close>, which contains
  \<^verbatim>\<open>llama3\<close>.
\<close>

theorem ensure_model_ollama_counterexample:
  "''llama3:70b'' \<notin> set [''llama3:8b'']
   \<and> filter (\<lambda>i. is_substring (lower ''llama3:70b'') (lower i)) [''llama3:8b''] = []
   \<and> ollama_ensure_model \<lparr>base_url = ''http://localhost:11434'', model = JStr ''llama3:70b''\<rparr>
         (Inr (JObj [(''models'', JArr [JObj [(''name'', JStr ''llama3:8b'')]])]))
       = Inr (JStr ''llama3:8b'',
              \<lparr>base_url = ''http://localhost:11434'', model = JStr ''llama3:8b''\<rparr>)"
  by (simp add: ollama_ensure_model_def get_models_def dict_get_def string_eval_defs)


subsection \<open>Preflight\<close>

lemma lm_preflight_try_True:
  "lm_preflight_try c fetched = Inr (True, msg)
   \<Longrightarrow> \<exists>models. get_models ''data'' fetched = Inr models \<and> models \<noteq> []"
  by (auto simp: lm_preflight_try_def split: sum.splits if_splits)

lemma ollama_preflight_try_True:
  "ollama_preflight_try c fetched = Inr (True, msg)
   \<Longrightarrow> \<exists>models. get_models ''models'' fetched = Inr models \<and> models \<noteq> []"
  by (auto simp: ollama_preflight_try_def split: sum.splits if_splits)

text \<open>
  C7. Whatever the request for the list of models gives (an exception, a body of any
  shape, an empty list, a list of models), \<^verbatim>\<open>preflight\<close> of both clients returns a pair
  of a boolean and a message and raises nothing; the boolean is true only if the request
  gave a list of models that is not empty.
\<close>

theorem preflight_never_raises:
  "(\<exists>ok msg. lm_preflight str c fetched = Inr (ok, msg)
      \<and> (ok \<longrightarrow> (\<exists>models. get_models ''data'' fetched = Inr models \<and> models \<noteq> [])))
   \<and> (\<exists>ok msg. ollama_preflight str c fetched = Inr (ok, msg)
      \<and> (ok \<longrightarrow> (\<exists>models. get_models ''models'' fetched = Inr models \<and> models \<noteq> [])))"
proof
  show "\<exists>ok msg. lm_preflight str c fetched = Inr (ok, msg)
      \<and> (ok \<longrightarrow> (\<exists>models. get_models ''data'' fetched = Inr models \<and> models \<noteq> []))"
  proof (cases "lm_preflight_try c fetched")
    case (Inl e)
    then show ?thesis by (auto simp: lm_preflight_def)
  next
    case (Inr r)
    obtain ok msg where r: "r = (ok, msg)" by (cases r)
    with Inr lm_preflight_try_True[of c fetched msg] show ?thesis
      by (cases ok) (auto simp: lm_preflight_def)
  qed
next
  show "\<exists>ok msg. ollama_preflight str c fetched = Inr (ok, msg)
      \<and> (ok \<longrightarrow> (\<exists>models. get_models ''models'' fetched = Inr models \<and> models \<noteq> []))"
  proof (cases "ollama_preflight_try c fetched")
    case (Inl e)
    then show ?thesis by (auto simp: ollama_preflight_def)
  next
    case (Inr r)
    obtain ok msg where r: "r = (ok, msg)" by (cases r)
    with Inr ollama_preflight_try_True[of c fetched msg] show ?thesis
      by (cases ok) (auto simp: ollama_preflight_def)
  qed
qed

theorem preflight_never_raises_witness:
  "lm_preflight (\<lambda>e. ''refused'') \<lparr>base_url = ''http://localhost:1234/v1'', model = JNull\<rparr>
     lm_example_fetched
     = Inr (True, ''Connected | Models: zai-org/GLM-4.6, llama3.1'')
   \<and> get_models ''data'' lm_example_fetched
     = Inr [JObj [(''id'', JStr ''zai-org/GLM-4.6'')], JObj [(''id'', JStr ''llama3.1'')]]
   \<and> ollama_preflight (\<lambda>e. ''refused'')
       \<lparr>base_url = ''http://localhost:11434'', model = JNull\<rparr>
       (Inl (RequestException ''refused''))
     = Inr (False, ''Connection failed: refused'')"
  using preflight_never_raises[of "\<lambda>e. ''refused''"
      "\<lparr>base_url = ''http://localhost:1234/v1'', model = JNull\<rparr>" lm_example_fetched]
  by (simp add: lm_preflight_def lm_preflight_try_def ollama_preflight_def
      ollama_preflight_try_def get_models_def lm_example_fetched_def dict_get_def
      join_json_def)

subsection \<open>Streaming\<close>









section \<open>Properties of the pairing repository\<close>



end
